theory Spec2Isabelle
  imports Main
begin

section \<open>Data model\<close>

text \<open>
  The module \<^verbatim>\<open>src/get-port.ts\<close> exports four asynchronous functions:
  \<^verbatim>\<open>getPort\<close>, \<^verbatim>\<open>getRandomPort\<close>, \<^verbatim>\<open>waitForPort\<close> and \<^verbatim>\<open>checkPort\<close>.
  Every \<^verbatim>\<open>await\<close> is sequential, so each function is modelled as a function from the
  state of the operating system (the world, of an arbitrary type \<open>'w\<close>) to its result,
  the events it caused in order, and the world it leaves.

  A \<^verbatim>\<open>PortNumber\<close> is a JavaScript number; the model takes the integers, the values
  the type is meant for. \<^verbatim>\<open>NaN\<close> is modelled where the module itself produces it, as
  the result of \<^verbatim>\<open>Number.parseInt\<close> (the value \<open>None\<close>); a \<^verbatim>\<open>NaN\<close> or a fraction
  handed in by the caller or read from \<^verbatim>\<open>process.env.PORT\<close> is outside the model.
  A \<^verbatim>\<open>HostAddress\<close> is a string or \<^verbatim>\<open>undefined\<close> (\<open>None\<close>).
\<close>

type_synonym port_number = int
type_synonym host_address = "string option"

text \<open>The parameter \<^verbatim>\<open>host: HostAddress | HostAddress[]\<close> of \<^verbatim>\<open>checkPort\<close>.\<close>

datatype host_arg = Single host_address | Multi "host_address list"

text \<open>\<^verbatim>\<open>GetPortError\<close> carries its message.\<close>

datatype error = GetPortError string

text \<open>
  What a call does to the outside: a bind attempt \<^verbatim>\<open>_tryPort(port, host)\<close> with what it
  reported (\<open>None\<close> is \<^verbatim>\<open>false\<close>), a \<^verbatim>\<open>setTimeout\<close> sleep with its argument, and a
  line written by \<^verbatim>\<open>_log\<close>.
\<close>

datatype event = Probe port_number host_address "port_number option" | Sleep int | Log string

text \<open>
  The imports of the module that are not part of it, taken as parameters:
  the bind primitive \<^verbatim>\<open>_tryPort\<close> (it reads and changes the world), the deny-list test
  \<^verbatim>\<open>isSafePort\<close>, the range expansion \<^verbatim>\<open>_generateRange(range, random)\<close> (for a run, the
  order its shuffle produced), \<^verbatim>\<open>_validateHostname\<close>, \<^verbatim>\<open>_getLocalHosts\<close>, \<^verbatim>\<open>_fmtOnHost\<close>,
  and the two environment variables: \<^verbatim>\<open>process.env.PORT\<close> as the number that
  \<^verbatim>\<open>Number(...)\<close> reads from it, and \<^verbatim>\<open>process.env.HOST\<close>.
\<close>

record 'w externals =
  tryPort :: "port_number \<Rightarrow> host_address \<Rightarrow> 'w \<Rightarrow> port_number option \<times> 'w"
  isSafePort :: "port_number \<Rightarrow> bool"
  generateRange :: "port_number list \<Rightarrow> bool \<Rightarrow> port_number list"
  validateHostname :: "host_address \<Rightarrow> bool option \<Rightarrow> bool option \<Rightarrow> host_address"
  getLocalHosts :: "host_address list \<Rightarrow> host_address list"
  fmtOnHost :: "host_address \<Rightarrow> string"
  env_PORT :: "int option"
  env_HOST :: "string option"

section \<open>Strings and numbers of the JavaScript runtime\<close>

definition digit_char :: "nat \<Rightarrow> char" where
  "digit_char d =
     (if d = 0 then CHR ''0'' else if d = 1 then CHR ''1'' else if d = 2 then CHR ''2''
      else if d = 3 then CHR ''3'' else if d = 4 then CHR ''4'' else if d = 5 then CHR ''5''
      else if d = 6 then CHR ''6'' else if d = 7 then CHR ''7'' else if d = 8 then CHR ''8''
      else CHR ''9'')"

function string_of_nat :: "nat \<Rightarrow> string" where
  "string_of_nat n =
     (if n < 10 then [digit_char n] else string_of_nat (n div 10) @ [digit_char (n mod 10)])"
  by pat_completeness auto
termination
  by (relation "measure (\<lambda>n. n)") auto

declare string_of_nat.simps [simp del]

text \<open>
  A number in a template literal or in \<^verbatim>\<open>x + ""\<close>: its decimal digits. JavaScript
  prints an integer this way when its absolute value is below \<open>10\<^sup>2\<^sup>1\<close>; what is said
  of the digits of larger numbers is not said of the program.
\<close>

definition toString :: "int \<Rightarrow> string" where
  "toString n = (if n < 0 then CHR ''-'' # string_of_nat (nat (- n)) else string_of_nat (nat n))"

text \<open>\<^verbatim>\<open>Array.prototype.join\<close> on an array of strings.\<close>

fun join :: "string \<Rightarrow> string list \<Rightarrow> string" where
  "join sep [] = []"
| "join sep [s] = s"
| "join sep (s # t # ss) = s @ sep @ join sep (t # ss)"

text \<open>
  \<^verbatim>\<open>Number.parseInt(s)\<close> with no radix, as ECMAScript defines it: leading white space is
  skipped, a sign is read, a prefix \<^verbatim>\<open>0x\<close> selects radix 16, and the longest run of
  digits is the value; with no digit the result is \<^verbatim>\<open>NaN\<close> (\<open>None\<close>).
  A \<open>char\<close> is a code unit from 0 to 255, so the white space is the six ASCII
  characters and the no-break space U+00A0; strings with code units above 255 are
  outside the model.
\<close>

definition is_white_space :: "char \<Rightarrow> bool" where
  "is_white_space c =
     (c \<in> set [CHR '' '', CHR 0x09, CHR 0x0A, CHR 0x0B, CHR 0x0C, CHR 0x0D, CHR 0xA0])"

definition digit_value :: "char \<Rightarrow> nat option" where
  "digit_value c =
     (let k = of_char c :: nat in
      if 48 \<le> k \<and> k \<le> 57 then Some (k - 48)
      else if 97 \<le> k \<and> k \<le> 122 then Some (k - 87)
      else if 65 \<le> k \<and> k \<le> 90 then Some (k - 55)
      else None)"

definition is_digit :: "nat \<Rightarrow> char \<Rightarrow> bool" where
  "is_digit radix c = (case digit_value c of None \<Rightarrow> False | Some v \<Rightarrow> v < radix)"

fun digits_value :: "nat \<Rightarrow> nat \<Rightarrow> string \<Rightarrow> nat" where
  "digits_value radix acc [] = acc"
| "digits_value radix acc (c # cs) =
     digits_value radix (acc * radix + (case digit_value c of None \<Rightarrow> 0 | Some v \<Rightarrow> v)) cs"

definition parseInt :: "string \<Rightarrow> int option" where
  "parseInt inputString =
     (let s = dropWhile is_white_space inputString;
          sign = (if take 1 s = ''-'' then - 1 else 1 :: int);
          s1 = (if take 1 s = ''+'' \<or> take 1 s = ''-'' then drop 1 s else s);
          hex = (take 2 s1 = ''0x'' \<or> take 2 s1 = ''0X'');
          radix = (if hex then 16 else 10 :: nat);
          s2 = (if hex then drop 2 s1 else s1);
          z = takeWhile (is_digit radix) s2
      in if z = [] then None else Some (sign * int (digits_value radix 0 z)))"

section \<open>Logging\<close>

text \<open>
  Modelled from the spec: \<^verbatim>\<open>_log(verbose, message)\<close> of \<^verbatim>\<open>./_internal\<close>, which is not among
  the sources. Diagnostics are written in verbose mode only.
\<close>

definition log :: "bool \<Rightarrow> string \<Rightarrow> event list" where
  "log verbose message = (if verbose then [Log message] else [])"

section \<open>checkPort\<close>

text \<open>
  The loop \<^verbatim>\<open>for (const _host of host)\<close> of \<^verbatim>\<open>checkPort\<close>: one bind per address; the
  first failure ends the loop with \<^verbatim>\<open>false\<close>; a bind of port 0 that resolved a port
  other than 0 replaces the target for the addresses that follow.
\<close>

fun checkHosts ::
  "'w externals \<Rightarrow> port_number \<Rightarrow> host_address list \<Rightarrow> bool \<Rightarrow> 'w
     \<Rightarrow> port_number option \<times> event list \<times> 'w" where
  "checkHosts x port [] verbose w = (Some port, [], w)"
| "checkHosts x port (h # hs) verbose w =
     (case tryPort x port h w of
        (None, w1) \<Rightarrow>
          (None,
           Probe port h None #
             (if port < 1024 \<and> verbose
              then log verbose (''Unable to listen to the priviliged port '' @ toString port
                                @ '' '' @ fmtOnHost x h)
              else []),
           w1)
      | (Some bound, w1) \<Rightarrow>
          (case checkHosts x (if port = 0 \<and> bound \<noteq> 0 then bound else port) hs verbose w1 of
             (r, evs, w2) \<Rightarrow> (r, Probe port h (Some bound) # evs, w2)))"

text \<open>
  \<^verbatim>\<open>!host\<close>: \<^verbatim>\<open>undefined\<close> and the empty string are falsy; an array, also the empty
  one, is truthy.
\<close>

fun falsy_host :: "host_arg \<Rightarrow> bool" where
  "falsy_host (Single None) = True"
| "falsy_host (Single (Some s)) = (s = [])"
| "falsy_host (Multi hs) = False"

text \<open>
  \<^verbatim>\<open>checkPort(port, host = process.env.HOST, verbose)\<close>. The default applies when the
  argument is \<^verbatim>\<open>undefined\<close>. \<^verbatim>\<open>verbose\<close> is used for its truth value only.
\<close>

definition checkPort ::
  "'w externals \<Rightarrow> port_number \<Rightarrow> host_arg \<Rightarrow> bool \<Rightarrow> 'w
     \<Rightarrow> port_number option \<times> event list \<times> 'w" where
  "checkPort x port host verbose w =
     (let host0 = (if host = Single None then Single (env_HOST x) else host);
          host1 = (if falsy_host host0
                   then Multi (getLocalHosts x [None, Some ''0.0.0.0''])
                   else host0)
      in case host1 of
           Single h \<Rightarrow> (case tryPort x port h w of (r, w1) \<Rightarrow> (r, [Probe port h r], w1))
         | Multi hs \<Rightarrow> checkHosts x port hs verbose w)"

section \<open>getRandomPort\<close>

definition getRandomPort ::
  "'w externals \<Rightarrow> host_address \<Rightarrow> 'w \<Rightarrow> (error + port_number) \<times> event list \<times> 'w" where
  "getRandomPort x host w =
     (case checkPort x 0 (Single host) False w of
        (None, evs, w1) \<Rightarrow>
          (Inl (GetPortError (''Unable to find any random port '' @ fmtOnHost x host)), evs, w1)
      | (Some port, evs, w1) \<Rightarrow> (Inr port, evs, w1))"

section \<open>waitForPort\<close>






section \<open>getPort\<close>

text \<open>
  \<^verbatim>\<open>GetPortInput\<close>: a number, a string, or an object with optional fields
  (\<^verbatim>\<open>Partial<GetPortOptions>\<close>; an absent field is \<open>None\<close>). A range is an array: empty,
  or its two bounds, and is kept as the list it is (\<^verbatim>\<open>.length\<close>, \<^verbatim>\<open>.join\<close>).
\<close>

record user_options =
  u_name :: "string option"
  u_random :: "bool option"
  u_port :: "port_number option"
  u_ports :: "port_number list option"
  u_portRange :: "port_number list option"
  u_alternativePortRange :: "port_number list option"
  u_host :: "string option"
  u_verbose :: "bool option"
  u_public :: "bool option"

datatype get_port_input = InNumber int | InString string | InOptions user_options

text \<open>The object \<^verbatim>\<open>{}\<close>, the default argument of \<^verbatim>\<open>getPort\<close>.\<close>

definition no_options :: user_options where
  "no_options =
     \<lparr> u_name = None, u_random = None, u_port = None, u_ports = None, u_portRange = None,
       u_alternativePortRange = None, u_host = None, u_verbose = None, u_public = None \<rparr>"

text \<open>
  Lines 25 to 27: a number or a string becomes
  \<^verbatim>\<open>{ port: Number.parseInt(_userOptions + "") || 0 }\<close>.
\<close>

definition normalizeInput :: "get_port_input \<Rightarrow> user_options" where
  "normalizeInput input =
     (case input of
        InNumber n \<Rightarrow>
          no_options \<lparr> u_port := Some (case parseInt (toString n) of None \<Rightarrow> 0 | Some v \<Rightarrow> v) \<rparr>
      | InString s \<Rightarrow>
          no_options \<lparr> u_port := Some (case parseInt s of None \<Rightarrow> 0 | Some v \<Rightarrow> v) \<rparr>
      | InOptions uo \<Rightarrow> uo)"

record get_port_options =
  o_name :: string
  o_random :: bool
  o_port :: port_number
  o_ports :: "port_number list"
  o_portRange :: "port_number list"
  o_alternativePortRange :: "port_number list"
  o_verbose :: bool
  o_public :: "bool option"
  o_host :: host_address

text \<open>
  Lines 29 to 45: the defaults, the caller's fields spread over them, then \<^verbatim>\<open>port\<close> and
  \<^verbatim>\<open>host\<close>. The default of \<^verbatim>\<open>alternativePortRange\<close> tests the truth value of the caller's
  own \<^verbatim>\<open>port\<close>.
\<close>

definition resolveOptions :: "'w externals \<Rightarrow> user_options \<Rightarrow> get_port_options" where
  "resolveOptions x uo =
     (let port = (case u_port uo of
                    Some p \<Rightarrow> p
                  | None \<Rightarrow> (case env_PORT x of Some p \<Rightarrow> p | None \<Rightarrow> 3000))
      in \<lparr> o_name = (case u_name uo of Some n \<Rightarrow> n | None \<Rightarrow> ''default''),
           o_random = (case u_random uo of Some b \<Rightarrow> b | None \<Rightarrow> port = 0),
           o_port = port,
           o_ports = (case u_ports uo of Some ps \<Rightarrow> ps | None \<Rightarrow> []),
           o_portRange = (case u_portRange uo of Some r \<Rightarrow> r | None \<Rightarrow> []),
           o_alternativePortRange =
             (case u_alternativePortRange uo of
                Some r \<Rightarrow> r
              | None \<Rightarrow> (case u_port uo of
                           None \<Rightarrow> [3000, 3100]
                         | Some p \<Rightarrow> if p = 0 then [3000, 3100] else [])),
           o_verbose = (case u_verbose uo of Some v \<Rightarrow> v | None \<Rightarrow> False),
           o_public = u_public uo,
           o_host = validateHostname x
                      (case u_host uo of Some h \<Rightarrow> Some h | None \<Rightarrow> env_HOST x)
                      (u_public uo) (u_verbose uo) \<rparr>)"

text \<open>
  Modelled from the spec: \<^verbatim>\<open>_findPort(ports, host)\<close> of \<^verbatim>\<open>./_internal\<close>, which is not among
  the sources. It takes the candidates in their order, calls \<^verbatim>\<open>checkPort\<close> on each, returns
  the first candidate whose check succeeded and nothing (\<open>None\<close>) when none did; a
  candidate that failed is not tried again.
\<close>

fun findPort ::
  "'w externals \<Rightarrow> port_number list \<Rightarrow> host_address \<Rightarrow> 'w
     \<Rightarrow> port_number option \<times> event list \<times> 'w" where
  "findPort x [] host w = (None, [], w)"
| "findPort x (p # ps) host w =
     (case checkPort x p (Single host) False w of
        (Some r, evs, w1) \<Rightarrow> (Some p, evs, w1)
      | (None, evs, w1) \<Rightarrow>
          (case findPort x ps host w1 of (r, evs', w2) \<Rightarrow> (r, evs @ evs', w2)))"

text \<open>
  Lines 55 to 64, the callback of \<^verbatim>\<open>.filter\<close>: a falsy port is dropped, an unsafe one is
  dropped and logged.
\<close>

fun filterPorts ::
  "'w externals \<Rightarrow> bool \<Rightarrow> port_number list \<Rightarrow> port_number list \<times> event list" where
  "filterPorts x verbose [] = ([], [])"
| "filterPorts x verbose (port # ports) =
     (case filterPorts x verbose ports of
        (kept, evs) \<Rightarrow>
          if port = 0 then (kept, evs)
          else if \<not> isSafePort x port
          then (kept, log verbose (''Ignoring unsafe port: '' @ toString port) @ evs)
          else (port # kept, evs))"

text \<open>Lines 52 to 64: \<^verbatim>\<open>portsToCheck\<close>.\<close>

definition portsToCheck ::
  "'w externals \<Rightarrow> get_port_options \<Rightarrow> port_number list \<times> event list" where
  "portsToCheck x opts =
     filterPorts x (o_verbose opts)
       ((if o_random opts then [] else o_port opts # o_ports opts)
        @ generateRange x (o_portRange opts) (o_random opts))"

text \<open>
  The variable \<^verbatim>\<open>availablePort\<close> holds a number or \<^verbatim>\<open>undefined\<close> (\<open>None\<close>);
  \<^verbatim>\<open>!availablePort\<close> holds for \<^verbatim>\<open>undefined\<close> and for 0.
\<close>

definition falsy_port :: "port_number option \<Rightarrow> bool" where
  "falsy_port availablePort = (case availablePort of None \<Rightarrow> True | Some p \<Rightarrow> p = 0)"

definition show_port :: "port_number option \<Rightarrow> string" where
  "show_port availablePort =
     (case availablePort of None \<Rightarrow> ''undefined'' | Some p \<Rightarrow> toString p)"

text \<open>Line 67: the primary candidates, filtered, go to \<^verbatim>\<open>_findPort\<close>.\<close>

definition primaryStage ::
  "'w externals \<Rightarrow> get_port_options \<Rightarrow> 'w \<Rightarrow> port_number option \<times> event list \<times> 'w" where
  "primaryStage x opts w =
     (case portsToCheck x opts of
        (ports, evs0) \<Rightarrow>
          (case findPort x ports (o_host opts) w of
             (availablePort, evs1, w1) \<Rightarrow> (availablePort, evs0 @ evs1, w1)))"

text \<open>
  Lines 70 to 81: the alternative range, expanded by \<^verbatim>\<open>_generateRange\<close> with no second
  argument, goes to \<^verbatim>\<open>_findPort\<close> as it is.
\<close>

definition alternativeStage ::
  "'w externals \<Rightarrow> get_port_options \<Rightarrow> port_number option \<Rightarrow> 'w
     \<Rightarrow> port_number option \<times> event list \<times> 'w" where
  "alternativeStage x opts availablePort w =
     (if falsy_port availablePort \<and> length (o_alternativePortRange opts) > 0
      then (case findPort x (generateRange x (o_alternativePortRange opts) False)
                   (o_host opts) w of
              (found, evs, w1) \<Rightarrow>
                (found,
                 evs @ log (o_verbose opts)
                   (''Unable to find an available port (tried ''
                    @ join ''-'' (map toString (o_alternativePortRange opts)) @ '' ''
                    @ fmtOnHost x (o_host opts) @ ''). Using alternative port ''
                    @ show_port found),
                 w1))
      else (availablePort, [], w))"

text \<open>
  Lines 84 to 89: the random fallback, unless the caller's own \<^verbatim>\<open>random\<close> is \<^verbatim>\<open>false\<close>.
  An error thrown by \<^verbatim>\<open>getRandomPort\<close> leaves \<^verbatim>\<open>getPort\<close>.
\<close>

definition randomStage ::
  "'w externals \<Rightarrow> user_options \<Rightarrow> get_port_options \<Rightarrow> port_number option \<Rightarrow> 'w
     \<Rightarrow> (error + port_number option) \<times> event list \<times> 'w" where
  "randomStage x uo opts availablePort w =
     (if falsy_port availablePort \<and> u_random uo \<noteq> Some False
      then (case getRandomPort x (o_host opts) w of
              (Inl e, evs, w1) \<Rightarrow> (Inl e, evs, w1)
            | (Inr p, evs, w1) \<Rightarrow>
                (Inr (Some p),
                 evs @ (if p \<noteq> 0
                        then log (o_verbose opts) (''Using random port '' @ toString p)
                        else []),
                 w1))
      else (Inr availablePort, [], w))"

text \<open>
  Lines 93 to 99: \<^verbatim>\<open>[port, portRange.join("-"), alternativePortRange.join("-")]\<close>,
  an array of a number and two strings, through \<^verbatim>\<open>.filter(Boolean).join(", ")\<close>.
\<close>

datatype js_value = JNumber int | JString string

fun truthy :: "js_value \<Rightarrow> bool" where
  "truthy (JNumber n) = (n \<noteq> 0)"
| "truthy (JString s) = (s \<noteq> [])"

fun js_string :: "js_value \<Rightarrow> string" where
  "js_string (JNumber n) = toString n"
| "js_string (JString s) = s"

definition triedRanges :: "get_port_options \<Rightarrow> string" where
  "triedRanges opts =
     join '', ''
       (map js_string
          (filter truthy
             [JNumber (o_port opts),
              JString (join ''-'' (map toString (o_portRange opts))),
              JString (join ''-'' (map toString (o_alternativePortRange opts)))]))"

text \<open>Lines 92 to 107: the error when no port is available, the port otherwise.\<close>

definition exhausted :: "'w externals \<Rightarrow> get_port_options \<Rightarrow> error" where
  "exhausted x opts =
     GetPortError (''Unable to find find available port '' @ fmtOnHost x (o_host opts)
                   @ '' (tried '' @ triedRanges opts @ '')'')"

definition finish ::
  "'w externals \<Rightarrow> get_port_options \<Rightarrow> port_number option \<Rightarrow> error + port_number" where
  "finish x opts availablePort =
     (case availablePort of
        None \<Rightarrow> Inl (exhausted x opts)
      | Some p \<Rightarrow> if p = 0 then Inl (exhausted x opts) else Inr p)"

definition getPort ::
  "'w externals \<Rightarrow> get_port_input \<Rightarrow> 'w \<Rightarrow> (error + port_number) \<times> event list \<times> 'w" where
  "getPort x input w =
     (let uo = normalizeInput input;
          opts = resolveOptions x uo
      in if o_random opts \<and> length (o_portRange opts) = 0
         then getRandomPort x (o_host opts) w
         else (case primaryStage x opts w of
                 (av1, evs1, w1) \<Rightarrow>
                   (case alternativeStage x opts av1 w1 of
                      (av2, evs2, w2) \<Rightarrow>
                        (case randomStage x uo opts av2 w2 of
                           (Inl e, evs3, w3) \<Rightarrow> (Inl e, evs1 @ evs2 @ evs3, w3)
                         | (Inr av3, evs3, w3) \<Rightarrow>
                             (finish x opts av3, evs1 @ evs2 @ evs3, w3)))))"

section \<open>Reading a trace\<close>

text \<open>The bind attempts of a trace, in order: target port, address, report.\<close>

fun probes :: "event list \<Rightarrow> (port_number \<times> host_address \<times> port_number option) list" where
  "probes [] = []"
| "probes (Probe p h r # evs) = (p, h, r) # probes evs"
| "probes (Sleep d # evs) = probes evs"
| "probes (Log m # evs) = probes evs"

text \<open>
  A trace is genuine from a world \<open>w\<close> to a world \<open>w'\<close> when each of its bind attempts,
  taken in order and each made in the world the one before it left, is what
  \<^verbatim>\<open>_tryPort\<close> reports there, and the last one leaves \<open>w'\<close>.
\<close>

fun genuine :: "'w externals \<Rightarrow> 'w \<Rightarrow> event list \<Rightarrow> 'w \<Rightarrow> bool" where
  "genuine x w [] w' = (w' = w)"
| "genuine x w (Probe p h r # evs) w' =
     (case tryPort x p h w of (r1, w1) \<Rightarrow> r1 = r \<and> genuine x w1 evs w')"
| "genuine x w (Sleep d # evs) w' = genuine x w evs w'"
| "genuine x w (Log m # evs) w' = genuine x w evs w'"

text \<open>
  The trace of rounds of \<^verbatim>\<open>waitForPort\<close> in which the bind succeeded (the port was
  free): each a bind attempt that reported a bound port, then a sleep.
\<close>

fun free_rounds :: "port_number \<Rightarrow> host_address \<Rightarrow> int \<Rightarrow> port_number list \<Rightarrow> event list" where
  "free_rounds p h d [] = []"
| "free_rounds p h d (b # bs) = Probe p h (Some b) # Sleep d # free_rounds p h d bs"

section \<open>Test doubles\<close>

text \<open>
  A machine whose state never changes: the ports of \<open>occupied\<close> cannot be bound, port 0
  binds port 49152, and only ports 1 to 65535 exist. Port 6000 is on the deny-list.
  A range \<open>[a, b]\<close> expands to \<open>a, ..., b\<close> in ascending order.
\<close>

definition static_externals :: "port_number list \<Rightarrow> unit externals" where
  "static_externals occupied =
     \<lparr> tryPort = (\<lambda>p h w.
         (if p \<in> set occupied \<or> p < 0 \<or> 65535 < p then None
          else Some (if p = 0 then 49152 else p), w)),
       isSafePort = (\<lambda>p. p \<noteq> 6000),
       generateRange = (\<lambda>r random. case r of [a, b] \<Rightarrow> [a..b] | _ \<Rightarrow> []),
       validateHostname = (\<lambda>h pub verbose. h),
       getLocalHosts = (\<lambda>hs. hs),
       fmtOnHost = (\<lambda>h. case h of None \<Rightarrow> ''on any host'' | Some s \<Rightarrow> ''on host '' @ s),
       env_PORT = None,
       env_HOST = None \<rparr>"

text \<open>
  A machine without IPv6: no port can be bound on the address \<^verbatim>\<open>::1\<close>; on every other
  address each port from 1 to 65535 is free, and port 0 binds port 49152.
\<close>

definition ipv4_externals :: "unit externals" where
  "ipv4_externals =
     \<lparr> tryPort = (\<lambda>p h w.
         (if h = Some ''::1'' \<or> p < 0 \<or> 65535 < p then None
          else Some (if p = 0 then 49152 else p), w)),
       isSafePort = (\<lambda>p. True),
       generateRange = (\<lambda>r random. []),
       validateHostname = (\<lambda>h pub verbose. h),
       getLocalHosts = (\<lambda>hs. hs),
       fmtOnHost = (\<lambda>h. case h of None \<Rightarrow> ''on any host'' | Some s \<Rightarrow> ''on host '' @ s),
       env_PORT = None,
       env_HOST = None \<rparr>"


section \<open>Traces and strings\<close>

lemma probes_append [simp]: "probes (a @ b) = probes a @ probes b"
  by (induction a rule: probes.induct) simp_all

lemma probes_log [simp]: "probes (log verbose m) = []"
  by (simp add: log_def)

lemma probes_free_rounds [simp]:
  "probes (free_rounds p h d bs) = map (\<lambda>b. (p, h, Some b)) bs"
  by (induction bs) simp_all

lemma map_const_replicate: "\<forall>e \<in> set xs. f e = c \<Longrightarrow> map f xs = replicate (length xs) c"
  by (induction xs) auto

lemma string_of_nat_nonempty: "string_of_nat n \<noteq> []"
  by (subst string_of_nat.simps) simp

lemma toString_nonempty: "toString n \<noteq> []"
  by (simp add: toString_def string_of_nat_nonempty)

lemma join_eq_Nil: "s \<noteq> [] \<Longrightarrow> join sep (s # ss) \<noteq> []"
  by (cases ss) simp_all

lemma join_range_empty: "(join ''-'' (map toString r) = []) = (r = [])"
  by (cases r) (simp_all add: join_eq_Nil toString_nonempty)

lemma genuine_log [simp]: "genuine x w (log verbose m) w' = (w' = w)"
  by (simp add: log_def)

text \<open>
  The digits of an integer, read back by \<^verbatim>\<open>Number.parseInt\<close>, are the integer.
\<close>

lemma digit_cases: "d < 10 \<Longrightarrow> d = 0 \<or> d = 1 \<or> d = 2 \<or> d = 3 \<or> d = 4 \<or> d = 5 \<or> d = 6 \<or> d = 7 \<or> d = 8 \<or> d = (9::nat)"
  by arith

lemma digit_value_digit_char: "d < 10 \<Longrightarrow> digit_value (digit_char d) = Some d"
  using digit_cases [of d] by (auto simp: digit_char_def digit_value_def)

lemma digit_char_plain:
  "d < 10 \<Longrightarrow> \<not> is_white_space (digit_char d) \<and> digit_char d \<noteq> CHR ''-'' \<and> digit_char d \<noteq> CHR ''+''
     \<and> digit_char d \<noteq> CHR ''x'' \<and> digit_char d \<noteq> CHR ''X''"
  using digit_cases [of d] by (auto simp: digit_char_def is_white_space_def)

lemma string_of_nat_digits: "\<forall>c \<in> set (string_of_nat n). \<exists>d < 10. c = digit_char d"
proof (induction n rule: string_of_nat.induct)
  case (1 n)
  show ?case
  proof (cases "n < 10")
    case True
    then show ?thesis by (subst string_of_nat.simps) auto
  next
    case False
    have "\<exists>d < 10. digit_char (n mod 10) = digit_char d"
      by (rule exI [of _ "n mod 10"]) simp
    with False "1.IH" show ?thesis by (subst string_of_nat.simps) auto
  qed
qed

lemma digits_value_snoc:
  "digits_value radix acc (cs @ [c])
     = digits_value radix acc cs * radix + (case digit_value c of None \<Rightarrow> 0 | Some v \<Rightarrow> v)"
  by (induction cs arbitrary: acc) simp_all

lemma digits_value_string_of_nat: "digits_value 10 0 (string_of_nat n) = n"
proof (induction n rule: string_of_nat.induct)
  case (1 n)
  show ?case
  proof (cases "n < 10")
    case True
    then show ?thesis by (subst string_of_nat.simps) (simp add: digit_value_digit_char)
  next
    case False
    have "n mod 10 < 10" by simp
    with False "1.IH" show ?thesis
      by (subst string_of_nat.simps) (simp add: digits_value_snoc digit_value_digit_char)
  qed
qed

lemma parseInt_digits:
  assumes "s \<noteq> []" and "\<forall>c \<in> set s. \<exists>d < 10. c = digit_char d"
  shows "parseInt s = Some (int (digits_value 10 0 s))"
    and "parseInt (CHR ''-'' # s) = Some (- int (digits_value 10 0 s))"
proof -
  from assms obtain c cs where s: "s = c # cs" by (cases s) auto
  with assms(2) obtain d where d: "d < 10" "c = digit_char d" by auto
  have all: "\<forall>c \<in> set s. is_digit 10 c"
    using assms(2) by (auto simp: is_digit_def digit_value_digit_char)
  then have tw: "takeWhile (is_digit 10) s = s" by (simp add: takeWhile_eq_all_conv)
  have nox: "CHR ''x'' \<notin> set s" "CHR ''X'' \<notin> set s"
  proof -
    { fix c assume "c \<in> set s"
      with assms(2) obtain e where "e < 10" "c = digit_char e" by auto
      with digit_char_plain [of e] have "c \<noteq> CHR ''x'' \<and> c \<noteq> CHR ''X''" by simp }
    then show "CHR ''x'' \<notin> set s" "CHR ''X'' \<notin> set s" by blast+
  qed
  have hex: "take 2 s \<noteq> ''0x''" "take 2 s \<noteq> ''0X''"
  proof -
    { assume "take 2 s = ''0x''"
      then have "CHR ''x'' \<in> set (take 2 s)" by simp
      then have "CHR ''x'' \<in> set s" by (rule in_set_takeD)
      with nox have False by simp }
    then show "take 2 s \<noteq> ''0x''" by blast
    { assume "take 2 s = ''0X''"
      then have "CHR ''X'' \<in> set (take 2 s)" by simp
      then have "CHR ''X'' \<in> set s" by (rule in_set_takeD)
      with nox have False by simp }
    then show "take 2 s \<noteq> ''0X''" by blast
  qed
  from digit_char_plain [OF d(1)] d(2) s
  have plain: "dropWhile is_white_space s = s" "take 1 s \<noteq> ''-''" "take 1 s \<noteq> ''+''"
    by auto
  from assms(1) hex plain(2,3) show "parseInt s = Some (int (digits_value 10 0 s))"
    unfolding parseInt_def Let_def plain(1) by (simp add: tw)
  have m: "dropWhile is_white_space (CHR ''-'' # s) = CHR ''-'' # s"
    by (simp add: is_white_space_def)
  from assms(1) hex show "parseInt (CHR ''-'' # s) = Some (- int (digits_value 10 0 s))"
    unfolding parseInt_def Let_def m by (simp add: tw)
qed

lemma parseInt_toString: "parseInt (toString n) = Some n"
proof (cases "n < 0")
  case True
  with parseInt_digits(2) [OF string_of_nat_nonempty string_of_nat_digits, of "nat (- n)"]
  show ?thesis by (simp add: toString_def digits_value_string_of_nat)
next
  case False
  with parseInt_digits(1) [OF string_of_nat_nonempty string_of_nat_digits, of "nat n"]
  show ?thesis by (simp add: toString_def digits_value_string_of_nat)
qed

text \<open>The test machine keeps the contract of the bind primitive.\<close>

lemma static_contract:
  "tryPort (static_externals occupied) p h w = (Some b, w1) \<Longrightarrow>
     1 \<le> b \<and> b \<le> 65535 \<and> (p \<noteq> 0 \<longrightarrow> b = p)"
  by (auto simp: static_externals_def split: if_splits)

lemmas eval_simps = getPort_def normalizeInput_def resolveOptions_def no_options_def
  primaryStage_def alternativeStage_def randomStage_def portsToCheck_def finish_def
  exhausted_def triedRanges_def falsy_port_def show_port_def getRandomPort_def checkPort_def
  log_def toString_def string_of_nat.simps digit_char_def static_externals_def Let_def

section \<open>checkPort on a list of addresses\<close>

text \<open>The result is \<^verbatim>\<open>false\<close> exactly when one of the binds that were made failed.\<close>

lemma checkHosts_failed_iff:
  "checkHosts x p hs v w = (r, evs, w') \<Longrightarrow>
     (r = None) = (\<exists>e \<in> set (probes evs). snd (snd e) = None)"
proof (induction hs arbitrary: p w r evs w')
  case Nil
  then show ?case by auto
next
  case (Cons h hs)
  show ?case
  proof (cases "tryPort x p h w")
    case (Pair res w1)
    show ?thesis
    proof (cases res)
      case None
      with Pair Cons.prems show ?thesis by auto
    next
      case (Some b)
      obtain r2 evs2 w2 where rest:
        "checkHosts x (if p = 0 \<and> b \<noteq> 0 then b else p) hs v w1 = (r2, evs2, w2)"
        by (cases "checkHosts x (if p = 0 \<and> b \<noteq> 0 then b else p) hs v w1") auto
      from Cons.prems Pair Some rest have "r = r2" "evs = Probe p h (Some b) # evs2"
        by auto
      with Cons.IH [OF rest] show ?thesis by simp
    qed
  qed
qed

text \<open>A check that succeeded has bound every address, in the order of the list.\<close>

lemma checkHosts_hosts:
  "checkHosts x p hs v w = (Some q, evs, w') \<Longrightarrow> map (fst \<circ> snd) (probes evs) = hs"
proof (induction hs arbitrary: p w evs)
  case Nil
  then show ?case by simp
next
  case (Cons h hs)
  then show ?case
    by (fastforce split: prod.splits option.splits)
qed

text \<open>A port other than 0 is the target of every bind and the only possible result.\<close>

lemma checkHosts_fixed_target:
  "p \<noteq> 0 \<Longrightarrow> checkHosts x p hs v w = (r, evs, w') \<Longrightarrow>
     (r = None \<or> r = Some p) \<and> (\<forall>e \<in> set (probes evs). fst e = p)"
proof (induction hs arbitrary: w r evs)
  case Nil
  then show ?case by simp
next
  case (Cons h hs)
  show ?case
  proof (cases "tryPort x p h w")
    case (Pair res w1)
    show ?thesis
    proof (cases res)
      case None
      with Pair Cons.prems show ?thesis by (auto split: if_splits)
    next
      case (Some b)
      obtain r2 evs2 w2 where rest: "checkHosts x p hs v w1 = (r2, evs2, w2)"
        by (cases "checkHosts x p hs v w1") auto
      from Cons.prems Pair Some rest have "r = r2" "evs = Probe p h (Some b) # evs2" "w2 = w'"
        by auto
      with Cons.IH [OF \<open>p \<noteq> 0\<close>, of w1 r2 evs2] rest show ?thesis by simp
    qed
  qed
qed

text \<open>Port 0: the port the first bind resolved is the target of all later binds.\<close>

lemma checkHosts_zero:
  assumes "tryPort x 0 h w = (Some b, w1)" and "b \<noteq> 0"
    and "checkHosts x 0 (h # hs) v w = (r, evs, w')"
  shows "(r = None \<or> r = Some b) \<and> map fst (probes evs) = 0 # replicate (length (probes evs) - 1) b"
proof -
  obtain r2 evs2 w2 where rest: "checkHosts x b hs v w1 = (r2, evs2, w2)"
    by (cases "checkHosts x b hs v w1") auto
  from assms rest have eq: "r = r2" "evs = Probe 0 h (Some b) # evs2" by auto
  from checkHosts_fixed_target [OF \<open>b \<noteq> 0\<close> rest]
  have "r2 = None \<or> r2 = Some b" and "\<forall>e \<in> set (probes evs2). fst e = b" by auto
  then show ?thesis using eq by (simp add: map_const_replicate)
qed

text \<open>
  Claim C10. For every port \<open>p\<close>, \<^verbatim>\<open>checkPort(p, [])\<close> returns \<open>p\<close> itself and makes no bind
  attempt (the trace is empty and the world is unchanged); for \<open>p = 0\<close> it returns 0.
\<close>

theorem checkPort_empty_host_list: "checkPort x p (Multi []) verbose w = (Some p, [], w)"
  by (simp add: checkPort_def)

theorem checkPort_empty_host_list_witness:
  "checkPort (static_externals []) 0 (Multi []) True () = (Some 0, [], ())"
  using checkPort_empty_host_list [of "static_externals []" 0 True "()"] .

text \<open>Every bind of the trace is a real bind, with the report it really had.\<close>

lemma checkHosts_genuine:
  "checkHosts x p hs v w = (r, evs, w') \<Longrightarrow> genuine x w evs w'"
proof (induction hs arbitrary: p w r evs w')
  case Nil
  then show ?case by auto
next
  case (Cons h hs)
  show ?case
  proof (cases "tryPort x p h w")
    case (Pair res w1)
    show ?thesis
    proof (cases res)
      case None
      with Pair Cons.prems show ?thesis by (auto split: if_splits)
    next
      case (Some b)
      obtain r2 evs2 w2 where rest:
        "checkHosts x (if p = 0 \<and> b \<noteq> 0 then b else p) hs v w1 = (r2, evs2, w2)"
        by (cases "checkHosts x (if p = 0 \<and> b \<noteq> 0 then b else p) hs v w1") auto
      from Cons.prems Pair Some rest have "evs = Probe p h (Some b) # evs2" "w' = w2"
        by auto
      with Cons.IH [OF rest] Pair Some show ?thesis by simp
    qed
  qed
qed

lemma checkHosts_stops:
  "checkHosts x p hs v w = (r, evs, w') \<Longrightarrow>
     map (fst \<circ> snd) (probes evs) = take (length (probes evs)) hs
     \<and> (\<forall>e \<in> set (butlast (probes evs)). snd (snd e) \<noteq> None)"
proof (induction hs arbitrary: p w r evs w')
  case Nil
  then show ?case by auto
next
  case (Cons h hs)
  show ?case
  proof (cases "tryPort x p h w")
    case (Pair res w1)
    show ?thesis
    proof (cases res)
      case None
      with Pair Cons.prems show ?thesis by (auto split: if_splits)
    next
      case (Some b)
      obtain r2 evs2 w2 where rest:
        "checkHosts x (if p = 0 \<and> b \<noteq> 0 then b else p) hs v w1 = (r2, evs2, w2)"
        by (cases "checkHosts x (if p = 0 \<and> b \<noteq> 0 then b else p) hs v w1") auto
      from Cons.prems Pair Some rest have "evs = Probe p h (Some b) # evs2"
        by auto
      with Cons.IH [OF rest] show ?thesis by (auto dest: in_set_butlastD)
    qed
  qed
qed

text \<open>
  Claim C2, as amended. For every port \<open>p\<close> and every list \<open>hs\<close> of addresses, the trace of
  \<^verbatim>\<open>checkPort(p, hs)\<close> is genuine: its binds are the calls of \<^verbatim>\<open>_tryPort\<close>, with their
  reports. The addresses bound are a prefix of \<open>hs\<close>, in order, and only the last bind can
  have failed. The result is \<^verbatim>\<open>false\<close> exactly when a bind failed; when a port is
  returned, every address of \<open>hs\<close> was bound. For the empty list the result is \<open>p\<close>
  itself and nothing is bound. For \<open>p\<close> other than 0 every bind targets \<open>p\<close> and the
  port returned is \<open>p\<close>. For \<open>p = 0\<close> and a list that is not empty, when the first bind
  resolves a port \<open>b\<close>, every later bind targets \<open>b\<close> and the port returned is \<open>b\<close>.
\<close>

theorem checkPort_host_list:
  assumes "checkPort x p (Multi hs) verbose w = (r, evs, w')"
  shows "genuine x w evs w' \<and>
         map (fst \<circ> snd) (probes evs) = take (length (probes evs)) hs \<and>
         (\<forall>e \<in> set (butlast (probes evs)). snd (snd e) \<noteq> None) \<and>
         ((r = None) = (\<exists>e \<in> set (probes evs). snd (snd e) = None)) \<and>
         (r \<noteq> None \<longrightarrow> map (fst \<circ> snd) (probes evs) = hs) \<and>
         (hs = [] \<longrightarrow> r = Some p \<and> evs = []) \<and>
         (p \<noteq> 0 \<longrightarrow> (r = None \<or> r = Some p) \<and> (\<forall>e \<in> set (probes evs). fst e = p)) \<and>
         (\<forall>h hs' b w1. p = 0 \<and> hs = h # hs' \<and> tryPort x 0 h w = (Some b, w1) \<and> b \<noteq> 0 \<longrightarrow>
            (r = None \<or> r = Some b) \<and>
            map fst (probes evs) = 0 # replicate (length (probes evs) - 1) b)"
proof -
  from assms have run: "checkHosts x p hs verbose w = (r, evs, w')"
    by (simp add: checkPort_def)
  have g: "genuine x w evs w'"
    by (rule checkHosts_genuine [OF run])
  have s1: "map (fst \<circ> snd) (probes evs) = take (length (probes evs)) hs"
    using checkHosts_stops [OF run] by simp
  have s2: "\<forall>e \<in> set (butlast (probes evs)). snd (snd e) \<noteq> None"
    using checkHosts_stops [OF run] by simp
  have a: "(r = None) = (\<exists>e \<in> set (probes evs). snd (snd e) = None)"
    by (rule checkHosts_failed_iff [OF run])
  have b: "r \<noteq> None \<longrightarrow> map (fst \<circ> snd) (probes evs) = hs"
  proof
    assume "r \<noteq> None"
    then obtain q where "r = Some q" by auto
    with run show "map (fst \<circ> snd) (probes evs) = hs" by (simp add: checkHosts_hosts)
  qed
  have e: "hs = [] \<longrightarrow> r = Some p \<and> evs = []"
    using run by auto
  have c: "p \<noteq> 0 \<longrightarrow> (r = None \<or> r = Some p) \<and> (\<forall>e \<in> set (probes evs). fst e = p)"
    using checkHosts_fixed_target [OF _ run] by simp
  have d: "\<forall>h hs' b w1. p = 0 \<and> hs = h # hs' \<and> tryPort x 0 h w = (Some b, w1) \<and> b \<noteq> 0 \<longrightarrow>
            (r = None \<or> r = Some b) \<and>
            map fst (probes evs) = 0 # replicate (length (probes evs) - 1) b"
  proof (intro allI impI)
    fix h hs' b w1
    assume h: "p = 0 \<and> hs = h # hs' \<and> tryPort x 0 h w = (Some b, w1) \<and> b \<noteq> 0"
    with run have "checkHosts x 0 (h # hs') verbose w = (r, evs, w')" by simp
    with h show "(r = None \<or> r = Some b) \<and>
            map fst (probes evs) = 0 # replicate (length (probes evs) - 1) b"
      using checkHosts_zero [of x h w b w1 hs' verbose r evs w'] by simp
  qed
  show ?thesis
    by (intro conjI g s1 s2 a b e c d)
qed

text \<open>
  The check of port 0 on three addresses of the machine without IPv6: the first bind
  resolves 49152, the second targets 49152 on \<^verbatim>\<open>::1\<close> and fails, the third address is
  not bound, and the result is \<^verbatim>\<open>false\<close>. On two addresses of a machine with every
  port free, 49152 is bound on both and returned.
\<close>

theorem checkPort_host_list_witness:
  "checkPort ipv4_externals 0 (Multi [None, Some ''::1'', Some ''0.0.0.0'']) False ()
     = (None, [Probe 0 None (Some 49152), Probe 49152 (Some ''::1'') None], ()) \<and>
   genuine ipv4_externals () [Probe 0 None (Some 49152), Probe 49152 (Some ''::1'') None] () \<and>
   map (fst \<circ> snd) (probes [Probe 0 None (Some 49152), Probe 49152 (Some ''::1'') None])
     = take 2 [None, Some ''::1'', Some ''0.0.0.0''] \<and>
   checkPort (static_externals []) 0 (Multi [None, Some ''::1'']) False ()
     = (Some 49152, [Probe 0 None (Some 49152), Probe 49152 (Some ''::1'') (Some 49152)], ()) \<and>
   tryPort (static_externals []) 0 None () = (Some 49152, ()) \<and>
   genuine (static_externals []) ()
     [Probe 0 None (Some 49152), Probe 49152 (Some ''::1'') (Some 49152)] () \<and>
   map fst (probes [Probe 0 None (Some 49152), Probe 49152 (Some ''::1'') (Some 49152)])
     = 0 # replicate 1 49152 \<and>
   map (fst \<circ> snd) (probes [Probe 0 None (Some 49152), Probe 49152 (Some ''::1'') (Some 49152)])
     = [None, Some ''::1'']"
proof -
  have fail: "checkPort ipv4_externals 0 (Multi [None, Some ''::1'', Some ''0.0.0.0'']) False ()
     = (None, [Probe 0 None (Some 49152), Probe 49152 (Some ''::1'') None], ())"
    by (simp add: checkPort_def ipv4_externals_def)
  note f = checkPort_host_list [OF fail]
  from f have fg: "genuine ipv4_externals () [Probe 0 None (Some 49152), Probe 49152 (Some ''::1'') None] ()"
    by (rule conjunct1)
  from f have fh:
    "map (fst \<circ> snd) (probes [Probe 0 None (Some 49152), Probe 49152 (Some ''::1'') None])
       = take 2 [None, Some ''::1'', Some ''0.0.0.0'']"
    by simp
  have run: "checkPort (static_externals []) 0 (Multi [None, Some ''::1'']) False ()
     = (Some 49152, [Probe 0 None (Some 49152), Probe 49152 (Some ''::1'') (Some 49152)], ())"
    by (simp add: checkPort_def static_externals_def)
  have first: "tryPort (static_externals []) 0 None () = (Some 49152, ())"
    by (simp add: static_externals_def)
  note t = checkPort_host_list [OF run]
  from t have g: "genuine (static_externals []) ()
     [Probe 0 None (Some 49152), Probe 49152 (Some ''::1'') (Some 49152)] ()"
    by (rule conjunct1)
  from t have hosts:
    "map (fst \<circ> snd) (probes [Probe 0 None (Some 49152), Probe 49152 (Some ''::1'') (Some 49152)])
       = [None, Some ''::1'']"
    by simp
  from t first have targets:
    "map fst (probes [Probe 0 None (Some 49152), Probe 49152 (Some ''::1'') (Some 49152)])
       = 0 # replicate 1 49152"
    by simp
  from fail fg fh run first g targets hosts show ?thesis by (intro conjI)
qed

text \<open>
  Claim C2 as stated fails for the empty list and port 0: \<^verbatim>\<open>checkPort(0, [])\<close> returns
  neither \<^verbatim>\<open>false\<close> nor a port that was bound. It returns 0, which is not a port from 1
  to 65535, on a machine where a bind of port 0 would resolve 49152.
\<close>

theorem checkPort_zero_no_address_counterexample:
  "checkPort (static_externals []) 0 (Multi []) False () = (Some 0, [], ())
   \<and> \<not> (1 \<le> (0 :: port_number))
   \<and> fst (tryPort (static_externals []) 0 None ()) = Some 49152"
  by (simp add: checkPort_def static_externals_def)

section \<open>waitForPort\<close>






section \<open>getPort: the primary candidates\<close>

lemma filterPorts_kept:
  "fst (filterPorts x verbose ps) = filter (\<lambda>p. p \<noteq> 0 \<and> isSafePort x p) ps"
  by (induction ps) (auto split: prod.splits)

lemma probes_filterPorts [simp]: "probes (snd (filterPorts x verbose ps)) = []"
  by (induction ps) (auto split: prod.splits)

text \<open>A check of a port other than 0 on one address binds that port only.\<close>

lemma checkPort_fixed_target:
  assumes "p \<noteq> 0" and "checkPort x p (Single h) verbose w = (r, evs, w')"
  shows "\<forall>e \<in> set (probes evs). fst e = p"
proof (cases "falsy_host (if Single h = Single None then Single (env_HOST x) else Single h)")
  case True
  with assms(2)
  have "checkHosts x p (getLocalHosts x [None, Some ''0.0.0.0'']) verbose w = (r, evs, w')"
    by (simp add: checkPort_def)
  from checkHosts_fixed_target [OF assms(1) this] show ?thesis by simp
next
  case False
  with assms(2) show ?thesis
    by (auto simp: checkPort_def split: if_splits prod.splits)
qed

text \<open>The finder binds its candidates only.\<close>

lemma findPort_probes:
  "0 \<notin> set ps \<Longrightarrow> findPort x ps h w = (r, evs, w') \<Longrightarrow>
     \<forall>e \<in> set (probes evs). fst e \<in> set ps"
proof (induction ps arbitrary: w r evs w')
  case Nil
  then show ?case by simp
next
  case (Cons p ps)
  from Cons.prems(1) have p: "p \<noteq> 0" and ps: "0 \<notin> set ps" by auto
  obtain r1 evs1 w1 where c: "checkPort x p (Single h) False w = (r1, evs1, w1)"
    by (cases "checkPort x p (Single h) False w") auto
  from checkPort_fixed_target [OF p c] have e1: "\<forall>e \<in> set (probes evs1). fst e = p" .
  show ?case
  proof (cases r1)
    case (Some b)
    with c Cons.prems(2) have "evs = evs1" by simp
    with e1 show ?thesis by simp
  next
    case None
    obtain r2 evs2 w2 where f: "findPort x ps h w1 = (r2, evs2, w2)"
      by (cases "findPort x ps h w1") auto
    with None c Cons.prems(2) have "evs = evs1 @ evs2" by simp
    with e1 Cons.IH [OF ps f] show ?thesis by auto
  qed
qed

lemma primaryStage_probes:
  assumes "primaryStage x opts w = (av, evs, w')"
  shows "\<forall>e \<in> set (probes evs). fst e \<in> set (fst (portsToCheck x opts))"
proof -
  obtain ports evs0 where pc: "portsToCheck x opts = (ports, evs0)"
    by (cases "portsToCheck x opts") auto
  obtain r evs1 w1 where f: "findPort x ports (o_host opts) w = (r, evs1, w1)"
    by (cases "findPort x ports (o_host opts) w") auto
  from pc have "ports = fst (portsToCheck x opts)" by simp
  then have z: "0 \<notin> set ports" by (simp add: portsToCheck_def filterPorts_kept)
  from pc have "evs0 = snd (portsToCheck x opts)" by simp
  then have "probes evs0 = []" by (simp add: portsToCheck_def)
  moreover from assms pc f have "evs = evs0 @ evs1" by (simp add: primaryStage_def)
  ultimately have "probes evs = probes evs1" by simp
  with findPort_probes [OF z f] pc show ?thesis by simp
qed

text \<open>
  In the primary stage (the explicit port, the explicit list, the primary range) the
  filter of lines 55 to 64 stands before the finder: every port bound there is other
  than 0 and passes \<^verbatim>\<open>isSafePort\<close>.
\<close>

lemma primaryStage_probes_safe:
  assumes "primaryStage x opts w = (av, evs, w')"
  shows "\<forall>e \<in> set (probes evs). fst e \<noteq> 0 \<and> isSafePort x (fst e)"
  using primaryStage_probes [OF assms] by (auto simp: portsToCheck_def filterPorts_kept)

text \<open>
  Claim C4. In the primary stage of \<^verbatim>\<open>getPort\<close> the candidates are the explicit port,
  then the explicit list (both left out when \<^verbatim>\<open>random\<close> holds), then the expansion of
  the primary range by \<^verbatim>\<open>_generateRange(portRange, random)\<close>, in this order, with the
  falsy and the unsafe ports dropped. 0 is not among the candidates, and no bind of
  the primary stage targets port 0.
\<close>

theorem portsToCheck_sequence:
  "fst (portsToCheck x opts)
     = filter (\<lambda>p. p \<noteq> 0 \<and> isSafePort x p)
         ((if o_random opts then [] else o_port opts # o_ports opts)
          @ generateRange x (o_portRange opts) (o_random opts))
   \<and> 0 \<notin> set (fst (portsToCheck x opts))
   \<and> (\<forall>e \<in> set (probes (fst (snd (primaryStage x opts w)))). fst e \<noteq> 0)"
proof -
  have a: "fst (portsToCheck x opts)
     = filter (\<lambda>p. p \<noteq> 0 \<and> isSafePort x p)
         ((if o_random opts then [] else o_port opts # o_ports opts)
          @ generateRange x (o_portRange opts) (o_random opts))"
    by (simp add: portsToCheck_def filterPorts_kept)
  then have b: "0 \<notin> set (fst (portsToCheck x opts))" by simp
  obtain av evs w' where p: "primaryStage x opts w = (av, evs, w')"
    by (cases "primaryStage x opts w") auto
  from primaryStage_probes [OF p] b have "\<forall>e \<in> set (probes evs). fst e \<noteq> 0" by auto
  with p a b show ?thesis by simp
qed

text \<open>
  The call \<^verbatim>\<open>getPort({port: 0, ports: [6000, 0, 4000], portRange: [5999, 6001],
  random: false})\<close>: the candidates are 4000, 5999 and 6001; with 4000 and 5999 taken,
  the binds of the primary stage target 4000, 5999 and 6001.
\<close>

theorem portsToCheck_sequence_witness:
  "fst (portsToCheck (static_externals [4000, 5999])
          (resolveOptions (static_externals [4000, 5999])
             (no_options \<lparr>u_port := Some 0, u_ports := Some [6000, 0, 4000],
                          u_portRange := Some [5999, 6001], u_random := Some False\<rparr>)))
     = [4000, 5999, 6001]
   \<and> map fst (probes (fst (snd (primaryStage (static_externals [4000, 5999])
          (resolveOptions (static_externals [4000, 5999])
             (no_options \<lparr>u_port := Some 0, u_ports := Some [6000, 0, 4000],
                          u_portRange := Some [5999, 6001], u_random := Some False\<rparr>)) ()))))
     = [4000, 5999, 6001, 6001]"
  using portsToCheck_sequence [of "static_externals [4000, 5999]"
      "resolveOptions (static_externals [4000, 5999])
             (no_options \<lparr>u_port := Some 0, u_ports := Some [6000, 0, 4000],
                          u_portRange := Some [5999, 6001], u_random := Some False\<rparr>)" "()"]
  by (simp add: eval_simps upto_rec1)

text \<open>
  Claim C1, evaluated where it fails. The alternative range goes to the finder without
  the filter of the primary stage: with port 4000 taken,
  \<^verbatim>\<open>getPort({port: 4000, alternativePortRange: [6000, 6000]})\<close> binds port 6000, which
  \<^verbatim>\<open>isSafePort\<close> rejects, and returns it.
\<close>

theorem getPort_alternative_range_unfiltered:
  "getPort (static_externals [4000])
       (InOptions (no_options \<lparr>u_port := Some 4000, u_alternativePortRange := Some [6000, 6000]\<rparr>)) ()
     = (Inr 6000,
        [Probe 4000 None None, Probe 6000 None (Some 6000), Probe 6000 (Some ''0.0.0.0'') (Some 6000)],
        ())
   \<and> \<not> isSafePort (static_externals [4000]) 6000"
  by (simp add: eval_simps)

section \<open>getPort: the cascade\<close>

text \<open>
  Claim C6, as amended. When \<^verbatim>\<open>options.random\<close> holds (the caller's \<^verbatim>\<open>random\<close> is
  \<^verbatim>\<open>true\<close>, or the caller gave no \<^verbatim>\<open>random\<close> and the resolved port is 0) and the caller
  gave no primary range or an empty one, \<^verbatim>\<open>getPort\<close> is \<^verbatim>\<open>getRandomPort\<close> on the
  validated host: same result, same trace, no candidate stage.
\<close>

theorem getPort_direct_random:
  assumes "uo = normalizeInput input"
    and "u_random uo = Some True \<or> (u_random uo = None \<and> o_port (resolveOptions x uo) = 0)"
    and "u_portRange uo = None \<or> u_portRange uo = Some []"
  shows "getPort x input w = getRandomPort x (o_host (resolveOptions x uo)) w"
proof -
  from assms(2) have "o_random (resolveOptions x uo)"
    by (auto simp: resolveOptions_def Let_def)
  moreover from assms(3) have "o_portRange (resolveOptions x uo) = []"
    by (auto simp: resolveOptions_def Let_def)
  ultimately show ?thesis
    by (simp add: getPort_def Let_def assms(1))
qed

text \<open>\<^verbatim>\<open>getPort(0)\<close>: no \<^verbatim>\<open>random\<close>, port 0, no range.\<close>

theorem getPort_direct_random_witness:
  "u_random (normalizeInput (InNumber 0)) = None
   \<and> o_port (resolveOptions (static_externals [3000]) (normalizeInput (InNumber 0))) = 0
   \<and> u_portRange (normalizeInput (InNumber 0)) = None
   \<and> getPort (static_externals [3000]) (InNumber 0) ()
     = getRandomPort (static_externals [3000])
         (o_host (resolveOptions (static_externals [3000]) (normalizeInput (InNumber 0)))) ()"
proof -
  have r: "u_random (normalizeInput (InNumber 0)) = None"
    by (simp add: normalizeInput_def no_options_def)
  have p: "o_port (resolveOptions (static_externals [3000]) (normalizeInput (InNumber 0))) = 0"
    by (simp add: normalizeInput_def resolveOptions_def no_options_def parseInt_def toString_def
        string_of_nat.simps digit_char_def is_white_space_def is_digit_def digit_value_def Let_def)
  have g: "u_portRange (normalizeInput (InNumber 0)) = None"
    by (simp add: normalizeInput_def no_options_def)
  from r p have rp: "u_random (normalizeInput (InNumber 0)) = Some True
      \<or> (u_random (normalizeInput (InNumber 0)) = None
         \<and> o_port (resolveOptions (static_externals [3000]) (normalizeInput (InNumber 0))) = 0)"
    by simp
  from g have g': "u_portRange (normalizeInput (InNumber 0)) = None
      \<or> u_portRange (normalizeInput (InNumber 0)) = Some []"
    by simp
  from r p g getPort_direct_random [OF refl rp g', of "()"] show ?thesis by (intro conjI)
qed

text \<open>
  Claim C6 as stated fails where the resolved port is 0 and the caller set \<^verbatim>\<open>random\<close>
  to \<^verbatim>\<open>false\<close>: \<^verbatim>\<open>getPort({port: 0, random: false})\<close> has no primary range, yet it
  does not go to \<^verbatim>\<open>getRandomPort\<close>. It runs the candidate stages, binds port 3000 of
  the default alternative range and returns it; \<^verbatim>\<open>getRandomPort\<close> would have bound
  port 0.
\<close>

theorem getPort_port_zero_random_false_counterexample:
  "getPort (static_externals []) (InOptions (no_options \<lparr>u_port := Some 0, u_random := Some False\<rparr>)) ()
     = (Inr 3000, [Probe 3000 None (Some 3000), Probe 3000 (Some ''0.0.0.0'') (Some 3000)], ())
   \<and> getRandomPort (static_externals []) None ()
     = (Inr 49152, [Probe 0 None (Some 49152), Probe 49152 (Some ''0.0.0.0'') (Some 49152)], ())
   \<and> o_port (resolveOptions (static_externals [])
              (normalizeInput (InOptions (no_options \<lparr>u_port := Some 0, u_random := Some False\<rparr>)))) = 0
   \<and> o_portRange (resolveOptions (static_externals [])
              (normalizeInput (InOptions (no_options \<lparr>u_port := Some 0, u_random := Some False\<rparr>)))) = []"
  by (simp add: eval_simps upto_rec1)

text \<open>
  Claim C9. A string \<open>s\<close> given as shorthand is read by \<^verbatim>\<open>Number.parseInt\<close>. When the
  result is \<^verbatim>\<open>NaN\<close>, the port is 0, \<^verbatim>\<open>random\<close> holds, and \<^verbatim>\<open>getPort(s)\<close> is
  \<^verbatim>\<open>getRandomPort\<close> on the validated host of the environment. When the result is a
  number \<open>v\<close>, the port is \<open>v\<close>, \<^verbatim>\<open>random\<close> holds only for \<open>v = 0\<close>, and \<^verbatim>\<open>getPort(s)\<close>
  is \<^verbatim>\<open>getPort({port: v})\<close>. A number \<open>n\<close> given as shorthand is read through the string
  of its digits: below \<open>10\<^sup>2\<^sup>1\<close> in absolute value its port is \<open>n\<close> and \<^verbatim>\<open>getPort(n)\<close> is
  \<^verbatim>\<open>getPort({port: n})\<close>.
\<close>

theorem getPort_shorthand:
  "(parseInt s = None \<longrightarrow>
      u_port (normalizeInput (InString s)) = Some 0
      \<and> o_random (resolveOptions x (normalizeInput (InString s)))
      \<and> getPort x (InString s) w = getRandomPort x (validateHostname x (env_HOST x) None None) w)
   \<and> (\<forall>v. parseInt s = Some v \<longrightarrow>
      u_port (normalizeInput (InString s)) = Some v
      \<and> o_random (resolveOptions x (normalizeInput (InString s))) = (v = 0)
      \<and> getPort x (InString s) w = getPort x (InOptions (no_options \<lparr>u_port := Some v\<rparr>)) w)
   \<and> (\<bar>n\<bar> < 10 ^ 21 \<longrightarrow>
      normalizeInput (InNumber n) = normalizeInput (InString (toString n))
      \<and> u_port (normalizeInput (InNumber n)) = Some n
      \<and> getPort x (InNumber n) w = getPort x (InOptions (no_options \<lparr>u_port := Some n\<rparr>)) w)"
proof (intro conjI impI allI)
  assume "parseInt s = None"
  then show "u_port (normalizeInput (InString s)) = Some 0"
    and "o_random (resolveOptions x (normalizeInput (InString s)))"
    and "getPort x (InString s) w = getRandomPort x (validateHostname x (env_HOST x) None None) w"
    by (simp_all add: getPort_def normalizeInput_def resolveOptions_def no_options_def Let_def)
next
  fix v assume "parseInt s = Some v"
  then show "u_port (normalizeInput (InString s)) = Some v"
    and "o_random (resolveOptions x (normalizeInput (InString s))) = (v = 0)"
    and "getPort x (InString s) w = getPort x (InOptions (no_options \<lparr>u_port := Some v\<rparr>)) w"
    by (simp_all add: getPort_def normalizeInput_def resolveOptions_def no_options_def Let_def)
next
  show "normalizeInput (InNumber n) = normalizeInput (InString (toString n))"
    and "u_port (normalizeInput (InNumber n)) = Some n"
    and "getPort x (InNumber n) w = getPort x (InOptions (no_options \<lparr>u_port := Some n\<rparr>)) w"
    by (simp_all add: getPort_def normalizeInput_def parseInt_toString no_options_def)
qed

text \<open>
  On a machine with every port free: \<^verbatim>\<open>getPort("abc")\<close> returns the port bound for
  port 0, \<^verbatim>\<open>getPort("3000")\<close> returns 3000 and \<^verbatim>\<open>getPort(8080)\<close> returns 8080.
\<close>

theorem getPort_shorthand_witness:
  "parseInt ''abc'' = None
   \<and> getPort (static_externals []) (InString ''abc'') ()
     = (Inr 49152, [Probe 0 None (Some 49152), Probe 49152 (Some ''0.0.0.0'') (Some 49152)], ())
   \<and> parseInt ''3000'' = Some 3000
   \<and> getPort (static_externals []) (InString ''3000'') ()
     = (Inr 3000, [Probe 3000 None (Some 3000), Probe 3000 (Some ''0.0.0.0'') (Some 3000)], ())
   \<and> getPort (static_externals []) (InNumber 8080) ()
     = (Inr 8080, [Probe 8080 None (Some 8080), Probe 8080 (Some ''0.0.0.0'') (Some 8080)], ())"
proof -
  have nan: "parseInt ''abc'' = None"
    by (simp add: parseInt_def is_white_space_def is_digit_def digit_value_def)
  have num: "parseInt ''3000'' = Some 3000"
    by (simp add: parseInt_def is_white_space_def is_digit_def digit_value_def)
  have r: "getRandomPort (static_externals [])
             (validateHostname (static_externals []) (env_HOST (static_externals [])) None None) ()
     = (Inr 49152, [Probe 0 None (Some 49152), Probe 49152 (Some ''0.0.0.0'') (Some 49152)], ())"
    by (simp add: getRandomPort_def checkPort_def static_externals_def)
  have g1: "getPort (static_externals []) (InOptions (no_options \<lparr>u_port := Some 3000\<rparr>)) ()
     = (Inr 3000, [Probe 3000 None (Some 3000), Probe 3000 (Some ''0.0.0.0'') (Some 3000)], ())"
    by (simp add: eval_simps)
  have g2: "getPort (static_externals []) (InOptions (no_options \<lparr>u_port := Some 8080\<rparr>)) ()
     = (Inr 8080, [Probe 8080 None (Some 8080), Probe 8080 (Some ''0.0.0.0'') (Some 8080)], ())"
    by (simp add: eval_simps)
  from getPort_shorthand [of "''abc''" "static_externals []" "()" 8080] nan r
  have a: "getPort (static_externals []) (InString ''abc'') ()
     = (Inr 49152, [Probe 0 None (Some 49152), Probe 49152 (Some ''0.0.0.0'') (Some 49152)], ())"
    by simp
  from getPort_shorthand [of "''3000''" "static_externals []" "()" 8080] num g1
  have b: "getPort (static_externals []) (InString ''3000'') ()
     = (Inr 3000, [Probe 3000 None (Some 3000), Probe 3000 (Some ''0.0.0.0'') (Some 3000)], ())"
    by simp
  from getPort_shorthand [of "''3000''" "static_externals []" "()" 8080] g2
  have c: "getPort (static_externals []) (InNumber 8080) ()
     = (Inr 8080, [Probe 8080 None (Some 8080), Probe 8080 (Some ''0.0.0.0'') (Some 8080)], ())"
    by simp
  from nan a num b c show ?thesis by (intro conjI)
qed

text \<open>The items of the error message: those of the three that are not empty.\<close>

lemma triedRanges_items:
  "triedRanges opts =
     join '', ''
       ((if o_port opts \<noteq> 0 then [toString (o_port opts)] else [])
        @ (if o_portRange opts \<noteq> [] then [join ''-'' (map toString (o_portRange opts))] else [])
        @ (if o_alternativePortRange opts \<noteq> []
           then [join ''-'' (map toString (o_alternativePortRange opts))] else []))"
  by (simp add: triedRanges_def join_range_empty)

text \<open>No port after the alternative stage means no port after the primary stage.\<close>

lemma alternativeStage_falsy:
  "alternativeStage x opts av1 w1 = (av2, evs2, w2) \<Longrightarrow> falsy_port av2 \<Longrightarrow> falsy_port av1"
  by (auto simp: alternativeStage_def split: if_splits prod.splits)

text \<open>\<^verbatim>\<open>getPort\<close> past its shortcut, in terms of the results of its stages.\<close>

lemma getPort_cascade:
  assumes "uo = normalizeInput input" and "opts = resolveOptions x uo"
    and "\<not> (o_random opts \<and> o_portRange opts = [])"
    and "primaryStage x opts w = (av1, evs1, w1)"
    and "alternativeStage x opts av1 w1 = (av2, evs2, w2)"
    and "getRandomPort x (o_host opts) w2 = (r3, evs3, w3)"
  shows "getPort x input w =
     (if falsy_port av2 \<and> u_random uo \<noteq> Some False
      then (case r3 of
              Inl e \<Rightarrow> (Inl e, evs1 @ evs2 @ evs3, w3)
            | Inr p \<Rightarrow>
                (finish x opts (Some p),
                 evs1 @ evs2 @ evs3
                 @ (if p \<noteq> 0 then log (o_verbose opts) (''Using random port '' @ toString p) else []),
                 w3))
      else (finish x opts av2, evs1 @ evs2, w2))"
proof -
  from assms(3) have nd: "(o_random opts \<and> length (o_portRange opts) = 0) = False" by simp
  have "getPort x input w =
          (case randomStage x uo opts av2 w2 of
             (Inl e, evs3, w3) \<Rightarrow> (Inl e, evs1 @ evs2 @ evs3, w3)
           | (Inr av3, evs3, w3) \<Rightarrow> (finish x opts av3, evs1 @ evs2 @ evs3, w3))"
    unfolding getPort_def Let_def assms(1) [symmetric] assms(2) [symmetric] nd
    by (simp add: assms(4,5))
  then show ?thesis
    by (simp add: randomStage_def assms(6) split: sum.splits)
qed

text \<open>
  Claim C5. Name the results of the stages: the primary stage gives \<open>av1\<close>, the
  alternative stage gives \<open>av2\<close> and leaves the world \<open>w2\<close>, and \<^verbatim>\<open>getRandomPort\<close> run
  from \<open>w2\<close> gives \<open>r3\<close> with the trace \<open>evs3\<close>. On the shortcut (\<^verbatim>\<open>random\<close> with no
  primary range) \<^verbatim>\<open>getPort\<close> is \<^verbatim>\<open>getRandomPort\<close>, and the caller's \<^verbatim>\<open>random\<close> is not
  \<^verbatim>\<open>false\<close>. Otherwise the binds of \<^verbatim>\<open>getPort\<close> are those of the primary stage, then
  those of the alternative stage, then those of \<^verbatim>\<open>getRandomPort\<close> exactly when \<open>av2\<close> is
  no port (so neither stage produced one) and the caller's \<^verbatim>\<open>random\<close> is not \<^verbatim>\<open>false\<close>;
  in that case a port other than 0 that \<^verbatim>\<open>getRandomPort\<close> returns is the outcome of
  \<^verbatim>\<open>getPort\<close>.
\<close>

theorem getPort_random_fallback:
  assumes "uo = normalizeInput input" and "opts = resolveOptions x uo"
    and "primaryStage x opts w = (av1, evs1, w1)"
    and "alternativeStage x opts av1 w1 = (av2, evs2, w2)"
    and "getRandomPort x (o_host opts) w2 = (r3, evs3, w3)"
  shows "if o_random opts \<and> o_portRange opts = []
         then getPort x input w = getRandomPort x (o_host opts) w \<and> u_random uo \<noteq> Some False
         else probes (fst (snd (getPort x input w)))
                = probes evs1 @ probes evs2
                  @ (if falsy_port av2 \<and> u_random uo \<noteq> Some False then probes evs3 else [])
            \<and> snd (snd (getPort x input w))
                = (if falsy_port av2 \<and> u_random uo \<noteq> Some False then w3 else w2)
            \<and> (falsy_port av2 \<longrightarrow> falsy_port av1)
            \<and> (falsy_port av2 \<and> u_random uo \<noteq> Some False \<longrightarrow>
                 (\<forall>p. r3 = Inr p \<and> p \<noteq> 0 \<longrightarrow> fst (getPort x input w) = Inr p))"
proof (cases "o_random opts \<and> o_portRange opts = []")
  case True
  then have "getPort x input w = getRandomPort x (o_host opts) w"
    by (simp add: getPort_def Let_def assms(1,2))
  moreover from True have "u_random uo \<noteq> Some False"
    by (auto simp: assms(2) resolveOptions_def Let_def)
  ultimately show ?thesis using True by simp
next
  case False
  note c = getPort_cascade [OF assms(1,2) False assms(3,4,5)]
  have a: "probes (fst (snd (getPort x input w)))
                = probes evs1 @ probes evs2
                  @ (if falsy_port av2 \<and> u_random uo \<noteq> Some False then probes evs3 else [])"
    by (simp add: c split: sum.splits)
  have b: "snd (snd (getPort x input w))
                = (if falsy_port av2 \<and> u_random uo \<noteq> Some False then w3 else w2)"
    by (simp add: c split: sum.splits)
  have d: "falsy_port av2 \<longrightarrow> falsy_port av1"
    using alternativeStage_falsy [OF assms(4)] by simp
  have e: "falsy_port av2 \<and> u_random uo \<noteq> Some False \<longrightarrow>
                 (\<forall>p. r3 = Inr p \<and> p \<noteq> 0 \<longrightarrow> fst (getPort x input w) = Inr p)"
    by (simp add: c finish_def)
  show ?thesis
    by (subst if_not_P [OF False]) (intro conjI a b d e)
qed

text \<open>
  \<^verbatim>\<open>getPort({port: 4000})\<close> with port 4000 taken: no alternative range, the caller gave no
  \<^verbatim>\<open>random\<close>, so port 0 is bound next and the port it resolved is returned.
\<close>

theorem getPort_random_fallback_witness:
  "primaryStage (static_externals [4000]) (resolveOptions (static_externals [4000]) (normalizeInput (InOptions (no_options \<lparr>u_port := Some 4000\<rparr>)))) ()
     = (None, [Probe 4000 None None], ())
   \<and> alternativeStage (static_externals [4000]) (resolveOptions (static_externals [4000]) (normalizeInput (InOptions (no_options \<lparr>u_port := Some 4000\<rparr>)))) None ()
     = (None, [], ())
   \<and> getRandomPort (static_externals [4000]) (o_host (resolveOptions (static_externals [4000]) (normalizeInput (InOptions (no_options \<lparr>u_port := Some 4000\<rparr>))))) ()
     = (Inr 49152, [Probe 0 None (Some 49152), Probe 49152 (Some ''0.0.0.0'') (Some 49152)], ())
   \<and> u_random (normalizeInput (InOptions (no_options \<lparr>u_port := Some 4000\<rparr>))) = None
   \<and> probes (fst (snd (getPort (static_externals [4000]) (InOptions (no_options \<lparr>u_port := Some 4000\<rparr>)) ())))
     = [(4000, None, None), (0, None, Some 49152), (49152, Some ''0.0.0.0'', Some 49152)]
   \<and> fst (getPort (static_externals [4000]) (InOptions (no_options \<lparr>u_port := Some 4000\<rparr>)) ()) = Inr 49152"
proof -
  have h1: "primaryStage (static_externals [4000]) (resolveOptions (static_externals [4000]) (normalizeInput (InOptions (no_options \<lparr>u_port := Some 4000\<rparr>)))) ()
     = (None, [Probe 4000 None None], ())"
    by (simp add: eval_simps)
  have h2: "alternativeStage (static_externals [4000]) (resolveOptions (static_externals [4000]) (normalizeInput (InOptions (no_options \<lparr>u_port := Some 4000\<rparr>)))) None ()
     = (None, [], ())"
    by (simp add: eval_simps)
  have h3: "getRandomPort (static_externals [4000]) (o_host (resolveOptions (static_externals [4000]) (normalizeInput (InOptions (no_options \<lparr>u_port := Some 4000\<rparr>))))) ()
     = (Inr 49152, [Probe 0 None (Some 49152), Probe 49152 (Some ''0.0.0.0'') (Some 49152)], ())"
    by (simp add: eval_simps)
  have r: "u_random (normalizeInput (InOptions (no_options \<lparr>u_port := Some 4000\<rparr>))) = None"
    by (simp add: normalizeInput_def no_options_def)
  have nd: "\<not> (o_random (resolveOptions (static_externals [4000]) (normalizeInput (InOptions (no_options \<lparr>u_port := Some 4000\<rparr>)))) \<and> o_portRange (resolveOptions (static_externals [4000]) (normalizeInput (InOptions (no_options \<lparr>u_port := Some 4000\<rparr>)))) = [])"
    by (simp add: normalizeInput_def resolveOptions_def no_options_def Let_def)
  note t = getPort_random_fallback [OF refl refl h1 h2 h3, unfolded if_not_P [OF nd]]
  from t r have p: "probes (fst (snd (getPort (static_externals [4000]) (InOptions (no_options \<lparr>u_port := Some 4000\<rparr>)) ())))
     = [(4000, None, None), (0, None, Some 49152), (49152, Some ''0.0.0.0'', Some 49152)]"
    by (simp add: falsy_port_def)
  from t r have q: "fst (getPort (static_externals [4000]) (InOptions (no_options \<lparr>u_port := Some 4000\<rparr>)) ()) = Inr 49152"
    by (simp add: falsy_port_def)
  from h1 h2 h3 r p q show ?thesis by (intro conjI)
qed

text \<open>
  Claim C7, as amended. On the shortcut \<^verbatim>\<open>getPort\<close> is \<^verbatim>\<open>getRandomPort\<close>, errors
  included. Past the shortcut, with the results of the stages named as for C5: when
  \<open>av2\<close> is a port, \<^verbatim>\<open>getPort\<close> throws nothing. When \<open>av2\<close> is no port and
  the caller's \<^verbatim>\<open>random\<close> is \<^verbatim>\<open>false\<close>, it throws the error whose message lists, in
  this order and joined by a comma, those that are not empty of: the port, the primary
  range, the alternative range. When \<open>av2\<close> is no port and the random fallback runs, an
  error of \<^verbatim>\<open>getRandomPort\<close> (\<^verbatim>\<open>Unable to find any random port\<close>, which lists nothing)
  is the error of \<^verbatim>\<open>getPort\<close>, a port other than 0 is returned, and port 0 gives the
  error with the list.
\<close>

theorem getPort_errors:
  assumes "uo = normalizeInput input" and "opts = resolveOptions x uo"
    and "primaryStage x opts w = (av1, evs1, w1)"
    and "alternativeStage x opts av1 w1 = (av2, evs2, w2)"
    and "getRandomPort x (o_host opts) w2 = (r3, evs3, w3)"
  shows "if o_random opts \<and> o_portRange opts = []
         then getPort x input w = getRandomPort x (o_host opts) w
         else (\<not> falsy_port av2 \<longrightarrow> (\<exists>p. fst (getPort x input w) = Inr p))
       \<and> (falsy_port av2 \<and> u_random uo = Some False \<longrightarrow>
            fst (getPort x input w) =
              Inl (GetPortError
                (''Unable to find find available port '' @ fmtOnHost x (o_host opts) @ '' (tried ''
                 @ join '', ''
                     ((if o_port opts \<noteq> 0 then [toString (o_port opts)] else [])
                      @ (if o_portRange opts \<noteq> []
                         then [join ''-'' (map toString (o_portRange opts))] else [])
                      @ (if o_alternativePortRange opts \<noteq> []
                         then [join ''-'' (map toString (o_alternativePortRange opts))] else []))
                 @ '')'')))
       \<and> (falsy_port av2 \<and> u_random uo \<noteq> Some False \<longrightarrow>
            (case r3 of
               Inl e \<Rightarrow> fst (getPort x input w) = Inl e
                        \<and> e = GetPortError (''Unable to find any random port '' @ fmtOnHost x (o_host opts))
             | Inr p \<Rightarrow> if p \<noteq> 0 then fst (getPort x input w) = Inr p
                        else fst (getPort x input w) = Inl (exhausted x opts)))"
proof (cases "o_random opts \<and> o_portRange opts = []")
  case True
  then show ?thesis
    by (simp add: getPort_def Let_def assms(1,2))
next
  case False
  note c = getPort_cascade [OF assms(1,2) False assms(3,4,5)]
  have a: "\<not> falsy_port av2 \<longrightarrow> (\<exists>p. fst (getPort x input w) = Inr p)"
    by (auto simp: c finish_def falsy_port_def split: option.splits)
  have b: "falsy_port av2 \<and> u_random uo = Some False \<longrightarrow>
            fst (getPort x input w) =
              Inl (GetPortError
                (''Unable to find find available port '' @ fmtOnHost x (o_host opts) @ '' (tried ''
                 @ join '', ''
                     ((if o_port opts \<noteq> 0 then [toString (o_port opts)] else [])
                      @ (if o_portRange opts \<noteq> []
                         then [join ''-'' (map toString (o_portRange opts))] else [])
                      @ (if o_alternativePortRange opts \<noteq> []
                         then [join ''-'' (map toString (o_alternativePortRange opts))] else []))
                 @ '')''))"
  proof
    assume h: "falsy_port av2 \<and> u_random uo = Some False"
    then have "fst (getPort x input w) = Inl (exhausted x opts)"
      by (auto simp: c finish_def falsy_port_def split: option.splits)
    then show "fst (getPort x input w) =
              Inl (GetPortError
                (''Unable to find find available port '' @ fmtOnHost x (o_host opts) @ '' (tried ''
                 @ join '', ''
                     ((if o_port opts \<noteq> 0 then [toString (o_port opts)] else [])
                      @ (if o_portRange opts \<noteq> []
                         then [join ''-'' (map toString (o_portRange opts))] else [])
                      @ (if o_alternativePortRange opts \<noteq> []
                         then [join ''-'' (map toString (o_alternativePortRange opts))] else []))
                 @ '')''))"
      by (simp only: exhausted_def triedRanges_items)
  qed
  have d: "falsy_port av2 \<and> u_random uo \<noteq> Some False \<longrightarrow>
            (case r3 of
               Inl e \<Rightarrow> fst (getPort x input w) = Inl e
                        \<and> e = GetPortError (''Unable to find any random port '' @ fmtOnHost x (o_host opts))
             | Inr p \<Rightarrow> if p \<noteq> 0 then fst (getPort x input w) = Inr p
                        else fst (getPort x input w) = Inl (exhausted x opts))"
    using assms(5)
    by (auto simp: c finish_def getRandomPort_def split: sum.splits prod.splits option.splits)
  show ?thesis
    by (subst if_not_P [OF False]) (intro conjI a b d)
qed

text \<open>
  \<^verbatim>\<open>getPort({port: 4000, random: false, alternativePortRange: [5000, 5001]})\<close> with
  the three ports taken: the error lists the port and the alternative range.
\<close>

theorem getPort_errors_witness:
  "primaryStage (static_externals [4000, 5000, 5001]) (resolveOptions (static_externals [4000, 5000, 5001])
          (normalizeInput (InOptions (no_options \<lparr>u_port := Some 4000, u_random := Some False, u_alternativePortRange := Some [5000, 5001]\<rparr>)))) ()
     = (None, [Probe 4000 None None], ())
   \<and> alternativeStage (static_externals [4000, 5000, 5001]) (resolveOptions (static_externals [4000, 5000, 5001])
          (normalizeInput (InOptions (no_options \<lparr>u_port := Some 4000, u_random := Some False, u_alternativePortRange := Some [5000, 5001]\<rparr>)))) None ()
     = (None, [Probe 5000 None None, Probe 5001 None None], ())
   \<and> u_random (normalizeInput (InOptions (no_options \<lparr>u_port := Some 4000, u_random := Some False, u_alternativePortRange := Some [5000, 5001]\<rparr>))) = Some False
   \<and> fst (getPort (static_externals [4000, 5000, 5001]) (InOptions (no_options \<lparr>u_port := Some 4000, u_random := Some False, u_alternativePortRange := Some [5000, 5001]\<rparr>)) ())
     = Inl (GetPortError
         ''Unable to find find available port on any host (tried 4000, 5000-5001)'')"
proof -
  have h1: "primaryStage (static_externals [4000, 5000, 5001]) (resolveOptions (static_externals [4000, 5000, 5001])
          (normalizeInput (InOptions (no_options \<lparr>u_port := Some 4000, u_random := Some False, u_alternativePortRange := Some [5000, 5001]\<rparr>)))) ()
     = (None, [Probe 4000 None None], ())"
    by (simp add: eval_simps)
  have h2: "alternativeStage (static_externals [4000, 5000, 5001]) (resolveOptions (static_externals [4000, 5000, 5001])
          (normalizeInput (InOptions (no_options \<lparr>u_port := Some 4000, u_random := Some False, u_alternativePortRange := Some [5000, 5001]\<rparr>)))) None ()
     = (None, [Probe 5000 None None, Probe 5001 None None], ())"
    by (simp add: eval_simps upto_rec1)
  have h3: "getRandomPort (static_externals [4000, 5000, 5001]) (o_host (resolveOptions (static_externals [4000, 5000, 5001])
          (normalizeInput (InOptions (no_options \<lparr>u_port := Some 4000, u_random := Some False, u_alternativePortRange := Some [5000, 5001]\<rparr>))))) ()
     = (Inr 49152, [Probe 0 None (Some 49152), Probe 49152 (Some ''0.0.0.0'') (Some 49152)], ())"
    by (simp add: eval_simps)
  have r: "u_random (normalizeInput (InOptions (no_options \<lparr>u_port := Some 4000, u_random := Some False, u_alternativePortRange := Some [5000, 5001]\<rparr>))) = Some False"
    by (simp add: normalizeInput_def no_options_def)
  have nd: "\<not> (o_random (resolveOptions (static_externals [4000, 5000, 5001])
          (normalizeInput (InOptions (no_options \<lparr>u_port := Some 4000, u_random := Some False, u_alternativePortRange := Some [5000, 5001]\<rparr>)))) \<and> o_portRange (resolveOptions (static_externals [4000, 5000, 5001])
          (normalizeInput (InOptions (no_options \<lparr>u_port := Some 4000, u_random := Some False, u_alternativePortRange := Some [5000, 5001]\<rparr>)))) = [])"
    by (simp add: normalizeInput_def resolveOptions_def no_options_def Let_def)
  from getPort_errors [OF refl refl h1 h2 h3, unfolded if_not_P [OF nd]] r
  have e: "fst (getPort (static_externals [4000, 5000, 5001]) (InOptions (no_options \<lparr>u_port := Some 4000, u_random := Some False, u_alternativePortRange := Some [5000, 5001]\<rparr>)) ())
     = Inl (GetPortError
         ''Unable to find find available port on any host (tried 4000, 5000-5001)'')"
    by (simp add: falsy_port_def normalizeInput_def resolveOptions_def no_options_def
        static_externals_def toString_def string_of_nat.simps digit_char_def Let_def)
  from h1 h2 r e show ?thesis by (intro conjI)
qed

text \<open>
  Claim C7 as stated fails when the random fallback runs and fails:
  \<^verbatim>\<open>getPort({port: 4000})\<close> on a machine where neither port 4000 nor port 0 can be
  bound has failed in every stage, and the error it throws is that of
  \<^verbatim>\<open>getRandomPort\<close>, not the error that lists port 4000.
\<close>

theorem getPort_random_failure_counterexample:
  "getPort (static_externals [0, 4000]) (InOptions (no_options \<lparr>u_port := Some 4000\<rparr>)) ()
     = (Inl (GetPortError ''Unable to find any random port on any host''),
        [Probe 4000 None None, Probe 0 None None], ())
   \<and> exhausted (static_externals [0, 4000])
        (resolveOptions (static_externals [0, 4000])
           (normalizeInput (InOptions (no_options \<lparr>u_port := Some 4000\<rparr>))))
     = GetPortError ''Unable to find find available port on any host (tried 4000)''"
  by (simp add: eval_simps)

section \<open>The port returned\<close>

text \<open>
  The contract of the bind primitive, as a hypothesis on \<^verbatim>\<open>_tryPort\<close>: a bind that
  succeeds reports a port from 1 to 65535, and the port asked for unless that was 0.
  The list of local addresses is not empty.
\<close>

lemma checkHosts_valid:
  assumes contract: "\<And>p h w b w1. tryPort x p h w = (Some b, w1) \<Longrightarrow> 1 \<le> b \<and> b \<le> 65535 \<and> (p \<noteq> 0 \<longrightarrow> b = p)"
    and "hs \<noteq> []" and run: "checkHosts x p hs v w = (Some q, evs, w')"
  shows "1 \<le> q \<and> q \<le> 65535 \<and> (p \<noteq> 0 \<longrightarrow> q = p)"
proof -
  from \<open>hs \<noteq> []\<close> obtain h hs' where hs: "hs = h # hs'" by (cases hs) auto
  obtain r1 w1 where t: "tryPort x p h w = (r1, w1)" by (cases "tryPort x p h w") auto
  from run hs t obtain b where b: "r1 = Some b" by (cases r1) auto
  from contract [of p h w b w1] t b have rng: "1 \<le> b" "b \<le> 65535" "p \<noteq> 0 \<longrightarrow> b = p" by auto
  then have tgt: "(if p = 0 \<and> b \<noteq> 0 then b else p) = b" by auto
  obtain r2 evs2 w2 where rest: "checkHosts x b hs' v w1 = (r2, evs2, w2)"
    by (cases "checkHosts x b hs' v w1") auto
  from run hs t b tgt rest have "r2 = Some q" by simp
  moreover from rng have "b \<noteq> 0" by simp
  from checkHosts_fixed_target [OF this rest] have "r2 = None \<or> r2 = Some b" by simp
  ultimately have "q = b" by simp
  with rng show ?thesis by simp
qed

lemma checkPort_valid:
  assumes contract: "\<And>p h w b w1. tryPort x p h w = (Some b, w1) \<Longrightarrow> 1 \<le> b \<and> b \<le> 65535 \<and> (p \<noteq> 0 \<longrightarrow> b = p)"
    and hosts: "getLocalHosts x [None, Some ''0.0.0.0''] \<noteq> []"
    and run: "checkPort x p (Single h) v w = (Some q, evs, w')"
  shows "1 \<le> q \<and> q \<le> 65535 \<and> (p \<noteq> 0 \<longrightarrow> q = p)"
proof (cases "falsy_host (if Single h = Single None then Single (env_HOST x) else Single h)")
  case True
  with run have "checkHosts x p (getLocalHosts x [None, Some ''0.0.0.0'']) v w = (Some q, evs, w')"
    by (simp add: checkPort_def)
  from checkHosts_valid [OF contract hosts this] show ?thesis by simp
next
  case False
  with run obtain h' w1 where "tryPort x p h' w = (Some q, w1)"
    by (auto simp: checkPort_def split: if_splits prod.splits)
  from contract [OF this] show ?thesis .
qed

lemma getRandomPort_valid:
  assumes contract: "\<And>p h w b w1. tryPort x p h w = (Some b, w1) \<Longrightarrow> 1 \<le> b \<and> b \<le> 65535 \<and> (p \<noteq> 0 \<longrightarrow> b = p)"
    and hosts: "getLocalHosts x [None, Some ''0.0.0.0''] \<noteq> []"
    and run: "getRandomPort x h w = (Inr q, evs, w')"
  shows "1 \<le> q \<and> q \<le> 65535"
proof -
  from run obtain evs1 w1 where "checkPort x 0 (Single h) False w = (Some q, evs1, w1)"
    by (auto simp: getRandomPort_def split: prod.splits option.splits)
  from checkPort_valid [OF contract hosts this] show ?thesis by simp
qed

lemma findPort_valid:
  assumes contract: "\<And>p h w b w1. tryPort x p h w = (Some b, w1) \<Longrightarrow> 1 \<le> b \<and> b \<le> 65535 \<and> (p \<noteq> 0 \<longrightarrow> b = p)"
    and hosts: "getLocalHosts x [None, Some ''0.0.0.0''] \<noteq> []"
  shows "findPort x ps h w = (Some q, evs, w') \<Longrightarrow> q = 0 \<or> (1 \<le> q \<and> q \<le> 65535)"
proof (induction ps arbitrary: w evs w')
  case Nil
  then show ?case by simp
next
  case (Cons p ps)
  obtain r1 evs1 w1 where c: "checkPort x p (Single h) False w = (r1, evs1, w1)"
    by (cases "checkPort x p (Single h) False w") auto
  show ?case
  proof (cases r1)
    case (Some b)
    with c Cons.prems have "q = p" by simp
    moreover from checkPort_valid [OF contract hosts c [unfolded Some]]
    have "1 \<le> b \<and> b \<le> 65535 \<and> (p \<noteq> 0 \<longrightarrow> b = p)" .
    ultimately show ?thesis by auto
  next
    case None
    obtain r2 evs2 w2 where f: "findPort x ps h w1 = (r2, evs2, w2)"
      by (cases "findPort x ps h w1") auto
    with None c Cons.prems have "r2 = Some q" by simp
    with f Cons.IH show ?thesis by simp
  qed
qed

text \<open>
  Claim C8. Let every successful bind report a port from 1 to 65535, equal to the port
  asked for unless that was 0, and let the list of local addresses be not empty. Then
  every port that \<^verbatim>\<open>getPort\<close> or \<^verbatim>\<open>getRandomPort\<close> returns lies in 1 to 65535: neither
  returns 0, and a requested port 0 comes back as the port that was bound.
\<close>

theorem returned_port_in_range:
  assumes contract: "\<And>p h w b w1. tryPort x p h w = (Some b, w1) \<Longrightarrow> 1 \<le> b \<and> b \<le> 65535 \<and> (p \<noteq> 0 \<longrightarrow> b = p)"
    and hosts: "getLocalHosts x [None, Some ''0.0.0.0''] \<noteq> []"
  shows "(getPort x input w = (Inr q, evs, w') \<longrightarrow> 1 \<le> q \<and> q \<le> 65535) \<and>
         (getRandomPort x host w = (Inr q, evs, w') \<longrightarrow> 1 \<le> q \<and> q \<le> 65535)"
proof (rule conjI; rule impI)
  assume "getRandomPort x host w = (Inr q, evs, w')"
  from getRandomPort_valid [OF contract hosts this] show "1 \<le> q \<and> q \<le> 65535" .
next
  assume run: "getPort x input w = (Inr q, evs, w')"
  define uo where "uo = normalizeInput input"
  define opts where "opts = resolveOptions x uo"
  show "1 \<le> q \<and> q \<le> 65535"
  proof (cases "o_random opts \<and> length (o_portRange opts) = 0")
    case True
    with run have "getRandomPort x (o_host opts) w = (Inr q, evs, w')"
      by (simp add: getPort_def uo_def opts_def Let_def)
    from getRandomPort_valid [OF contract hosts this] show ?thesis .
  next
    case False
    obtain av1 evs1 w1 where s1: "primaryStage x opts w = (av1, evs1, w1)"
      by (cases "primaryStage x opts w") auto
    obtain av2 evs2 w2 where s2: "alternativeStage x opts av1 w1 = (av2, evs2, w2)"
      by (cases "alternativeStage x opts av1 w1") auto
    obtain r3 evs3 w3 where s3: "randomStage x uo opts av2 w2 = (r3, evs3, w3)"
      by (cases "randomStage x uo opts av2 w2") auto
    from run False s1 s2 s3 obtain av3 where r3: "r3 = Inr av3" and fin: "finish x opts av3 = Inr q"
      by (cases r3) (auto simp: getPort_def uo_def opts_def Let_def)
    from fin have av3: "av3 = Some q" and q0: "q \<noteq> 0"
      by (auto simp: finish_def split: option.splits if_splits)
    have v1: "av1 = Some q \<Longrightarrow> ?thesis"
    proof -
      assume a: "av1 = Some q"
      from s1 obtain e w'' where "findPort x (fst (portsToCheck x opts)) (o_host opts) w = (av1, e, w'')"
        by (auto simp: primaryStage_def split: prod.splits)
      from findPort_valid [OF contract hosts this [unfolded a]] q0 show ?thesis by simp
    qed
    have v2: "av2 = Some q \<Longrightarrow> ?thesis"
    proof -
      assume a: "av2 = Some q"
      show ?thesis
      proof (cases "falsy_port av1 \<and> length (o_alternativePortRange opts) > 0")
        case True
        with s2 obtain e w'' where
          "findPort x (generateRange x (o_alternativePortRange opts) False) (o_host opts) w1 = (av2, e, w'')"
          by (auto simp: alternativeStage_def split: prod.splits)
        from findPort_valid [OF contract hosts this [unfolded a]] q0 show ?thesis by simp
      next
        case False
        with s2 have "av2 = av1" by (auto simp: alternativeStage_def)
        with a v1 show ?thesis by simp
      qed
    qed
    show ?thesis
    proof (cases "falsy_port av2 \<and> u_random uo \<noteq> Some False")
      case True
      with s3 r3 av3 obtain e w'' where "getRandomPort x (o_host opts) w2 = (Inr q, e, w'')"
        by (auto simp: randomStage_def split: prod.splits sum.splits)
      from getRandomPort_valid [OF contract hosts this] show ?thesis .
    next
      case False
      with s3 r3 av3 have "av2 = Some q" by (auto simp: randomStage_def)
      with v2 show ?thesis .
    qed
  qed
qed

text \<open>
  \<^verbatim>\<open>getPort({port: 4000})\<close> with port 4000 taken returns 49152, the port bound for
  port 0.
\<close>

theorem returned_port_in_range_witness:
  "getPort (static_externals [4000]) (InOptions (no_options \<lparr>u_port := Some 4000\<rparr>)) ()
     = (Inr 49152,
        [Probe 4000 None None, Probe 0 None (Some 49152), Probe 49152 (Some ''0.0.0.0'') (Some 49152)],
        ())
   \<and> getLocalHosts (static_externals [4000]) [None, Some ''0.0.0.0''] \<noteq> []
   \<and> (1::int) \<le> 49152 \<and> (49152::int) \<le> 65535"
proof -
  have run: "getPort (static_externals [4000]) (InOptions (no_options \<lparr>u_port := Some 4000\<rparr>)) ()
     = (Inr 49152,
        [Probe 4000 None None, Probe 0 None (Some 49152), Probe 49152 (Some ''0.0.0.0'') (Some 49152)],
        ())"
    by (simp add: eval_simps)
  have hosts: "getLocalHosts (static_externals [4000]) [None, Some ''0.0.0.0''] \<noteq> []"
    by (simp add: static_externals_def)
  have "(getPort (static_externals [4000]) (InOptions (no_options \<lparr>u_port := Some 4000\<rparr>)) ()
           = (Inr 49152,
              [Probe 4000 None None, Probe 0 None (Some 49152),
               Probe 49152 (Some ''0.0.0.0'') (Some 49152)],
              ())
         \<longrightarrow> 1 \<le> (49152::int) \<and> (49152::int) \<le> 65535)
      \<and> (getRandomPort (static_externals [4000]) None ()
           = (Inr 49152,
              [Probe 4000 None None, Probe 0 None (Some 49152),
               Probe 49152 (Some ''0.0.0.0'') (Some 49152)],
              ())
         \<longrightarrow> 1 \<le> (49152::int) \<and> (49152::int) \<le> 65535)"
  proof (rule returned_port_in_range)
    fix p h w b w1
    assume "tryPort (static_externals [4000]) p h w = (Some b, w1)"
    then show "1 \<le> b \<and> b \<le> 65535 \<and> (p \<noteq> 0 \<longrightarrow> b = p)"
      by (rule static_contract)
  next
    show "getLocalHosts (static_externals [4000]) [None, Some ''0.0.0.0''] \<noteq> []"
      by (rule hosts)
  qed
  with run have "(1::int) \<le> 49152 \<and> (49152::int) \<le> 65535"
    by blast
  with run hosts show ?thesis by simp
qed

end
